theory Spec2Isabelle
  imports Complex_Main "HOL-Library.AList"
begin

section \<open>JavaScript values\<close>

text \<open>
  The values that reach the \<^verbatim>\<open>POST /proxy\<close> handler of \<^verbatim>\<open>routes/index.js\<close> in
  \<^verbatim>\<open>req.body\<close>: \<^verbatim>\<open>undefined\<close> when no body parser filled it, otherwise what
  \<^verbatim>\<open>bodyParser.json\<close> or \<^verbatim>\<open>bodyParser.urlencoded\<close> decoded. An object is the list of
  its own properties in insertion order, with distinct keys. A number is a rational: the
  handler only tests a number for being zero and copies it.
\<close>

datatype jsval =
    JUndefined
  | JNull
  | JBool bool
  | JNum rat
  | JStr string
  | JArr "jsval list"
  | JObj "(string \<times> jsval) list"

text \<open>
  JavaScript's conversion to boolean, as \<^verbatim>\<open>!x\<close>, \<^verbatim>\<open>x || y\<close> and \<^verbatim>\<open>if (x)\<close> apply it:
  \<^verbatim>\<open>undefined\<close>, \<^verbatim>\<open>null\<close>, \<^verbatim>\<open>false\<close>, \<^verbatim>\<open>0\<close> and \<^verbatim>\<open>""\<close> are falsy, every array and
  object is truthy.
\<close>

fun truthy :: "jsval \<Rightarrow> bool" where
  "truthy JUndefined = False"
| "truthy JNull = False"
| "truthy (JBool b) = b"
| "truthy (JNum n) = (n \<noteq> 0)"
| "truthy (JStr s) = (s \<noteq> [])"
| "truthy (JArr xs) = True"
| "truthy (JObj ps) = True"

text \<open>
  An Error object: the name of its constructor and its own enumerable properties, which
  are what \<^verbatim>\<open>err.statusCode\<close> reads and what \<^verbatim>\<open>res.json\<close> writes of it.
\<close>

datatype js_error = Error string "(string \<times> jsval) list"

fun own_props :: "js_error \<Rightarrow> (string \<times> jsval) list" where
  "own_props (Error name ps) = ps"

definition own :: "(string \<times> jsval) list \<Rightarrow> string \<Rightarrow> jsval" where
  "own ps k = (case map_of ps k of None \<Rightarrow> JUndefined | Some v \<Rightarrow> v)"

text \<open>
  The property read \<^verbatim>\<open>v.k\<close>, for the names the handler reads (\<^verbatim>\<open>url\<close>, \<^verbatim>\<open>method\<close>,
  \<^verbatim>\<open>body\<close>, \<^verbatim>\<open>timeout\<close>, \<^verbatim>\<open>retries\<close>, \<^verbatim>\<open>headers\<close>): none of them is a property of a
  prototype, of an array or of a primitive, so only an object's own property gives a value.
  Reading a property of \<^verbatim>\<open>undefined\<close> or \<^verbatim>\<open>null\<close> throws a TypeError.
\<close>

fun get_prop :: "jsval \<Rightarrow> string \<Rightarrow> js_error + jsval" where
  "get_prop JUndefined k = Inl (Error ''TypeError'' [])"
| "get_prop JNull k = Inl (Error ''TypeError'' [])"
| "get_prop (JObj ps) k = Inr (own ps k)"
| "get_prop v k = Inr JUndefined"

section \<open>The collaborators of the handler\<close>

text \<open>
  The response of the target, as \<^verbatim>\<open>got\<close> resolves with it; the handler reads its
  \<^verbatim>\<open>body\<close>, a string.
\<close>

record upstream_response =
  statusCode :: nat
  body :: string

text \<open>
  What the handler calls and does not define: \<^verbatim>\<open>got(url, options)\<close>, whose promise
  settles fulfilled with a response (\<open>Inr\<close>) or rejected with an error (\<open>Inl\<close>);
  \<^verbatim>\<open>JSON.parse\<close>, which returns the value or throws; \<^verbatim>\<open>JSON.stringify\<close>, which gives
  the JSON text of a truthy value of a request body.
\<close>

record env =
  got :: "jsval \<Rightarrow> jsval \<Rightarrow> js_error + upstream_response"
  JSON_parse :: "string \<Rightarrow> js_error + jsval"
  JSON_stringify :: "jsval \<Rightarrow> string"

text \<open>
  The state of one request and response exchange: \<^verbatim>\<open>req.body\<close>, the status code of
  \<^verbatim>\<open>res\<close>, the value \<^verbatim>\<open>res.json\<close> has sent if any, and the calls of \<^verbatim>\<open>got\<close> made so
  far with their two arguments.
\<close>

record exchange =
  req_body :: jsval
  status_code :: nat
  sent :: "jsval option"
  got_calls :: "(jsval \<times> jsval) list"

text \<open>Express hands the handler a response with status code 200 and nothing sent.\<close>

definition fresh :: "jsval \<Rightarrow> exchange" where
  "fresh b = \<lparr>req_body = b, status_code = 200, sent = None, got_calls = []\<rparr>"

definition res_status :: "nat \<Rightarrow> exchange \<Rightarrow> exchange" where
  "res_status c s = s\<lparr>status_code := c\<rparr>"

definition res_json :: "jsval \<Rightarrow> exchange \<Rightarrow> exchange" where
  "res_json v s = s\<lparr>sent := Some v\<rparr>"

definition call_got :: "env \<Rightarrow> jsval \<Rightarrow> jsval \<Rightarrow> exchange \<Rightarrow> (js_error + upstream_response) \<times> exchange" where
  "call_got E url options s = (got E url options, s\<lparr>got_calls := got_calls s @ [(url, options)]\<rparr>)"

section \<open>Promises\<close>

text \<open>
  A settled promise is \<open>Inr\<close> of its value or \<open>Inl\<close> of its rejection reason, paired
  with the state the callbacks have left. \<^verbatim>\<open>p.then(f)\<close> runs \<open>f\<close> on a fulfilled
  promise and passes a rejection on; \<^verbatim>\<open>p.then(null, g)\<close> runs \<open>g\<close> on a rejected
  promise and passes a value on. A callback that throws rejects the promise that
  \<^verbatim>\<open>then\<close> returns.
\<close>

definition then_fulfilled ::
  "(js_error + 'a) \<times> exchange \<Rightarrow> ('a \<Rightarrow> exchange \<Rightarrow> (js_error + 'b) \<times> exchange)
     \<Rightarrow> (js_error + 'b) \<times> exchange" where
  "then_fulfilled p f =
     (case p of
        (Inr x, s) \<Rightarrow> f x s
      | (Inl e, s) \<Rightarrow> (Inl e, s))"

definition then_rejected ::
  "(js_error + 'a) \<times> exchange \<Rightarrow> (js_error \<Rightarrow> exchange \<Rightarrow> (js_error + 'a) \<times> exchange)
     \<Rightarrow> (js_error + 'a) \<times> exchange" where
  "then_rejected p g =
     (case p of
        (Inr x, s) \<Rightarrow> (Inr x, s)
      | (Inl e, s) \<Rightarrow> g e s)"

section \<open>The handler of POST /proxy\<close>

text \<open>
  Lines 31 to 49: the options object starts as \<^verbatim>\<open>{method: req.body.method}\<close>; then each
  of \<^verbatim>\<open>body\<close>, \<^verbatim>\<open>timeout\<close>, \<^verbatim>\<open>retries\<close>, \<^verbatim>\<open>headers\<close>, in this order, is set when
  \<^verbatim>\<open>if (req.body.<name>)\<close> finds it truthy, the body as \<^verbatim>\<open>JSON.stringify\<close> of it.
\<close>

definition build_options :: "env \<Rightarrow> jsval \<Rightarrow> js_error + (string \<times> jsval) list" where
  "build_options E b =
     (case get_prop b ''method'' of Inl e \<Rightarrow> Inl e | Inr m \<Rightarrow>
     (let options = [(''method'', m)] in
     (case get_prop b ''body'' of Inl e \<Rightarrow> Inl e | Inr bd \<Rightarrow>
     (let options = (if truthy bd
                     then AList.update ''body'' (JStr (JSON_stringify E bd)) options
                     else options) in
     (case get_prop b ''timeout'' of Inl e \<Rightarrow> Inl e | Inr t \<Rightarrow>
     (let options = (if truthy t then AList.update ''timeout'' t options else options) in
     (case get_prop b ''retries'' of Inl e \<Rightarrow> Inl e | Inr r \<Rightarrow>
     (let options = (if truthy r then AList.update ''retries'' r options else options) in
     (case get_prop b ''headers'' of Inl e \<Rightarrow> Inl e | Inr h \<Rightarrow>
     (let options = (if truthy h then AList.update ''headers'' h options else options) in
      Inr options))))))))))"

definition url_missing :: jsval where
  \<open>url_missing = JObj [(''message'', JStr ''"url" is missing.'')]\<close>

definition method_missing :: jsval where
  \<open>method_missing = JObj [(''message'', JStr ''"method" is missing.'')]\<close>

text \<open>
  The handler, lines 15 to 62. The result is the state at the end with \<open>Inr ()\<close> when the
  handler returned and its promise, if it made one, is fulfilled, and with \<open>Inl e\<close> when
  \<open>e\<close> was thrown out of the handler or its promise is rejected with \<open>e\<close>. The calls of
  the logger write a log line and change nothing here.
\<close>

definition proxy_handler :: "env \<Rightarrow> exchange \<Rightarrow> (js_error + unit) \<times> exchange" where
  "proxy_handler E s0 =
     (let s = s0\<lparr>req_body := (if truthy (req_body s0) then req_body s0 else JObj [])\<rparr> in
     (case get_prop (req_body s) ''url'' of Inl e \<Rightarrow> (Inl e, s) | Inr url \<Rightarrow>
      if \<not> truthy url then (Inr (), res_json url_missing (res_status 400 s))
      else
     (case get_prop (req_body s) ''method'' of Inl e \<Rightarrow> (Inl e, s) | Inr method \<Rightarrow>
      if \<not> truthy method then (Inr (), res_json method_missing (res_status 400 s))
      else
     (case build_options E (req_body s) of Inl e \<Rightarrow> (Inl e, s) | Inr options \<Rightarrow>
      then_rejected
        (then_fulfilled (call_got E url (JObj options) s)
           (\<lambda>response s'.
              (case JSON_parse E (body response) of
                 Inl e \<Rightarrow> (Inl e, s')
               | Inr v \<Rightarrow> (Inr (), res_json v s'))))
        (\<lambda>err s'.
           (Inr (), res_json (JObj [(''err'', JObj (own_props err))]) (res_status 400 s')))))))"

section \<open>An example environment\<close>

text \<open>
  A target used in the examples below: \<^verbatim>\<open>http://x/ok\<close> answers 200 with the body
  \<^verbatim>\<open>{"k":"v"}\<close>, \<^verbatim>\<open>http://x/text\<close> answers 200 with the body \<^verbatim>\<open>not-json\<close>, and
  for every other URL \<^verbatim>\<open>got\<close> rejects with an HTTPError whose \<^verbatim>\<open>statusCode\<close> is 500.
  \<^verbatim>\<open>JSON.parse\<close> and \<^verbatim>\<open>JSON.stringify\<close> are given on the texts and values the examples
  use.
\<close>

definition example_upstream :: env where
  \<open>example_upstream =
     \<lparr>got = (\<lambda>url options.
         if url = JStr ''http://x/ok'' then Inr \<lparr>statusCode = 200, body = ''{"k":"v"}''\<rparr>
         else if url = JStr ''http://x/text'' then Inr \<lparr>statusCode = 200, body = ''not-json''\<rparr>
         else Inl (Error ''HTTPError'' [(''statusCode'', JNum 500)])),
      JSON_parse = (\<lambda>t. if t = ''{"k":"v"}'' then Inr (JObj [(''k'', JStr ''v'')])
                         else Inl (Error ''SyntaxError'' [])),
      JSON_stringify = (\<lambda>v. if v = JObj [(''a'', JNum 1)] then ''{"a":1}'' else ''null'')\<rparr>\<close>

section \<open>Reading properties\<close>

lemma get_prop_truthy: "truthy b \<Longrightarrow> \<exists>v. get_prop b k = Inr v"
  by (cases b) simp_all

lemma own_absent: "map_of ps k = None \<Longrightarrow> own ps k = JUndefined"
  by (simp add: own_def)

lemma own_present: "map_of ps k = Some v \<Longrightarrow> own ps k = v"
  by (simp add: own_def)

lemma own_delete: "k' \<noteq> k \<Longrightarrow> own (AList.delete k ps) k' = own ps k'"
  by (simp add: own_def)

lemma own_delete_same: "own (AList.delete k ps) k = JUndefined"
  by (simp add: own_def delete_conv')

section \<open>The handler on a descriptor\<close>

text \<open>
  On an object the options are the \<^verbatim>\<open>method\<close> followed by the truthy optional fields, in
  the order of the four \<^verbatim>\<open>if\<close> statements.
\<close>

lemma build_options_obj:
  "build_options E (JObj ps) =
     Inr ((''method'', own ps ''method'') #
          (if truthy (own ps ''body'')
           then [(''body'', JStr (JSON_stringify E (own ps ''body'')))] else []) @
          (if truthy (own ps ''timeout'') then [(''timeout'', own ps ''timeout'')] else []) @
          (if truthy (own ps ''retries'') then [(''retries'', own ps ''retries'')] else []) @
          (if truthy (own ps ''headers'') then [(''headers'', own ps ''headers'')] else []))"
  by (simp add: build_options_def Let_def)

lemma build_options_total: "\<exists>options. build_options E (JObj ps) = Inr options"
  by (simp add: build_options_obj)

text \<open>The five ways through the handler, for a request whose body is an object.\<close>

lemma proxy_handler_obj:
  "proxy_handler E (fresh (JObj ps)) =
     (if \<not> truthy (own ps ''url'')
      then (Inr (), \<lparr>req_body = JObj ps, status_code = 400, sent = Some url_missing,
                     got_calls = []\<rparr>)
      else if \<not> truthy (own ps ''method'')
      then (Inr (), \<lparr>req_body = JObj ps, status_code = 400, sent = Some method_missing,
                     got_calls = []\<rparr>)
      else (case build_options E (JObj ps) of
              Inl e \<Rightarrow> (Inl e, fresh (JObj ps))
            | Inr options \<Rightarrow>
                (case got E (own ps ''url'') (JObj options) of
                   Inl err \<Rightarrow>
                     (Inr (), \<lparr>req_body = JObj ps, status_code = 400,
                                sent = Some (JObj [(''err'', JObj (own_props err))]),
                                got_calls = [(own ps ''url'', JObj options)]\<rparr>)
                 | Inr response \<Rightarrow>
                     (case JSON_parse E (body response) of
                        Inl err \<Rightarrow>
                          (Inr (), \<lparr>req_body = JObj ps, status_code = 400,
                                     sent = Some (JObj [(''err'', JObj (own_props err))]),
                                     got_calls = [(own ps ''url'', JObj options)]\<rparr>)
                      | Inr v \<Rightarrow>
                          (Inr (), \<lparr>req_body = JObj ps, status_code = 200, sent = Some v,
                                     got_calls = [(own ps ''url'', JObj options)]\<rparr>)))))"
  by (simp add: proxy_handler_def fresh_def Let_def res_json_def res_status_def call_got_def
      then_fulfilled_def then_rejected_def split: sum.splits)

lemma got_calls_obj:
  assumes "truthy (own ps ''url'')" and "truthy (own ps ''method'')"
    and "build_options E (JObj ps) = Inr options"
  shows "got_calls (snd (proxy_handler E (fresh (JObj ps)))) = [(own ps ''url'', JObj options)]"
  using assms by (simp add: proxy_handler_obj split: sum.splits)

section \<open>Validation of the required fields\<close>

text \<open>
  Claim C1. A descriptor whose \<^verbatim>\<open>url\<close> is absent or empty is answered at once with
  status 400 and the body \<^verbatim>\<open>{"message": "\"url\" is missing."}\<close>; a descriptor with a
  \<^verbatim>\<open>url\<close> whose \<^verbatim>\<open>method\<close> is absent or empty is answered with status 400 and the
  body \<^verbatim>\<open>{"message": "\"method\" is missing."}\<close>; in both cases \<^verbatim>\<open>got\<close> is not
  called, and the empty descriptor gets the \<^verbatim>\<open>url\<close> answer. The handler tests
  \<^verbatim>\<open>!req.body.url\<close> and \<^verbatim>\<open>!req.body.method\<close>: an absent field reads as
  \<^verbatim>\<open>undefined\<close>, which is falsy as the empty string is.
\<close>

theorem missing_field_fails_fast:
  "(\<not> truthy (own ps ''url'') \<longrightarrow>
      proxy_handler E (fresh (JObj ps)) =
        (Inr (), \<lparr>req_body = JObj ps, status_code = 400, sent = Some url_missing,
                   got_calls = []\<rparr>))
   \<and> (truthy (own ps ''url'') \<and> \<not> truthy (own ps ''method'') \<longrightarrow>
      proxy_handler E (fresh (JObj ps)) =
        (Inr (), \<lparr>req_body = JObj ps, status_code = 400, sent = Some method_missing,
                   got_calls = []\<rparr>))"
  by (simp add: proxy_handler_obj)

text \<open>
  The descriptors \<^verbatim>\<open>{}\<close>, \<^verbatim>\<open>{url: "", method: "GET"}\<close>, \<^verbatim>\<open>{url: "http://x/ok"}\<close> and
  \<^verbatim>\<open>{url: "http://x/ok", method: ""}\<close>.
\<close>

theorem missing_field_fails_fast_witness:
  \<open>proxy_handler example_upstream (fresh (JObj [])) =
     (Inr (), \<lparr>req_body = JObj [], status_code = 400,
                sent = Some (JObj [(''message'', JStr ''"url" is missing.'')]), got_calls = []\<rparr>)
   \<and> proxy_handler example_upstream
        (fresh (JObj [(''url'', JStr ''''), (''method'', JStr ''GET'')])) =
     (Inr (), \<lparr>req_body = JObj [(''url'', JStr ''''), (''method'', JStr ''GET'')],
                status_code = 400,
                sent = Some (JObj [(''message'', JStr ''"url" is missing.'')]), got_calls = []\<rparr>)
   \<and> proxy_handler example_upstream (fresh (JObj [(''url'', JStr ''http://x/ok'')])) =
     (Inr (), \<lparr>req_body = JObj [(''url'', JStr ''http://x/ok'')], status_code = 400,
                sent = Some (JObj [(''message'', JStr ''"method" is missing.'')]),
                got_calls = []\<rparr>)
   \<and> proxy_handler example_upstream
        (fresh (JObj [(''url'', JStr ''http://x/ok''), (''method'', JStr '''')])) =
     (Inr (), \<lparr>req_body = JObj [(''url'', JStr ''http://x/ok''), (''method'', JStr '''')],
                status_code = 400,
                sent = Some (JObj [(''message'', JStr ''"method" is missing.'')]),
                got_calls = []\<rparr>)\<close>
  using missing_field_fails_fast [of "[]" example_upstream]
    missing_field_fails_fast
      [of "[(''url'', JStr ''''), (''method'', JStr ''GET'')]" example_upstream]
    missing_field_fails_fast [of "[(''url'', JStr ''http://x/ok'')]" example_upstream]
    missing_field_fails_fast
      [of "[(''url'', JStr ''http://x/ok''), (''method'', JStr '''')]" example_upstream]
  by (simp add: own_def url_missing_def method_missing_def)

text \<open>
  Claim C10. When \<^verbatim>\<open>req.body\<close> is \<^verbatim>\<open>undefined\<close> or another falsy value, the handler
  puts an empty object in its place and answers with status 400 and the \<^verbatim>\<open>url\<close>
  message; it returns, so no property of \<^verbatim>\<open>undefined\<close> is read and nothing is thrown,
  and \<^verbatim>\<open>got\<close> is not called.
\<close>

theorem absent_body_handled:
  assumes "\<not> truthy b"
  shows "proxy_handler E (fresh b) =
           (Inr (), \<lparr>req_body = JObj [], status_code = 400, sent = Some url_missing,
                      got_calls = []\<rparr>)"
  using assms
  by (simp add: proxy_handler_def fresh_def Let_def res_json_def res_status_def own_def)

theorem absent_body_handled_witness:
  \<open>proxy_handler example_upstream (fresh JUndefined) =
     (Inr (), \<lparr>req_body = JObj [], status_code = 400,
                sent = Some (JObj [(''message'', JStr ''"url" is missing.'')]), got_calls = []\<rparr>)
   \<and> proxy_handler example_upstream (fresh JNull) =
     (Inr (), \<lparr>req_body = JObj [], status_code = 400,
                sent = Some (JObj [(''message'', JStr ''"url" is missing.'')]), got_calls = []\<rparr>)\<close>
proof -
  have u: "\<not> truthy JUndefined" and n: "\<not> truthy JNull"
    by simp_all
  show ?thesis
    using absent_body_handled [OF u, of example_upstream]
      absent_body_handled [OF n, of example_upstream]
    by (simp add: url_missing_def)
qed

section \<open>The outcome of the outbound call\<close>

text \<open>
  Claim C2. For a descriptor with non-empty \<^verbatim>\<open>url\<close> and \<^verbatim>\<open>method\<close>, when the promise
  of \<^verbatim>\<open>got\<close> is fulfilled and \<^verbatim>\<open>JSON.parse\<close> accepts the body of the response, the
  handler sends the parsed value with the status 200 it started with, after exactly one
  call of \<^verbatim>\<open>got\<close> with the \<^verbatim>\<open>url\<close> and the options built.
\<close>

theorem forward_success:
  assumes "truthy (own ps ''url'')" and "truthy (own ps ''method'')"
    and "build_options E (JObj ps) = Inr options"
    and "got E (own ps ''url'') (JObj options) = Inr response"
    and "JSON_parse E (body response) = Inr v"
  shows "proxy_handler E (fresh (JObj ps)) =
           (Inr (), \<lparr>req_body = JObj ps, status_code = 200, sent = Some v,
                      got_calls = [(own ps ''url'', JObj options)]\<rparr>)"
  using assms by (simp add: proxy_handler_obj)

text \<open>
  The descriptor \<^verbatim>\<open>{url: "http://x/ok", method: "GET"}\<close>, whose target answers 200 with
  \<^verbatim>\<open>{"k":"v"}\<close>.
\<close>

theorem forward_success_witness:
  \<open>proxy_handler example_upstream
      (fresh (JObj [(''url'', JStr ''http://x/ok''), (''method'', JStr ''GET'')])) =
     (Inr (), \<lparr>req_body = JObj [(''url'', JStr ''http://x/ok''), (''method'', JStr ''GET'')],
                status_code = 200, sent = Some (JObj [(''k'', JStr ''v'')]),
                got_calls = [(JStr ''http://x/ok'', JObj [(''method'', JStr ''GET'')])]\<rparr>)\<close>
proof -
  let ?ps = "[(''url'', JStr ''http://x/ok''), (''method'', JStr ''GET'')]"
  have u: "truthy (own ?ps ''url'')" and m: "truthy (own ?ps ''method'')"
    by (simp_all add: own_def)
  have b: "build_options example_upstream (JObj ?ps) = Inr [(''method'', JStr ''GET'')]"
    by (simp add: build_options_obj own_def)
  have g: \<open>got example_upstream (own ?ps ''url'') (JObj [(''method'', JStr ''GET'')]) =
             Inr \<lparr>statusCode = 200, body = ''{"k":"v"}''\<rparr>\<close>
    by (simp add: example_upstream_def own_def)
  have p: \<open>JSON_parse example_upstream (body \<lparr>statusCode = 200, body = ''{"k":"v"}''\<rparr>) =
             Inr (JObj [(''k'', JStr ''v'')])\<close>
    by (simp add: example_upstream_def)
  show ?thesis
    using forward_success [OF u m b g p] by (simp add: own_def)
qed

text \<open>
  Claim C3. For a descriptor with non-empty \<^verbatim>\<open>url\<close> and \<^verbatim>\<open>method\<close>, when the promise
  of \<^verbatim>\<open>got\<close> is rejected with an error, whatever made the client reject, the handler
  returns normally and answers with status 400 and the body \<^verbatim>\<open>{err: <error>}\<close>. The
  body holds every own property of the error, so the \<^verbatim>\<open>statusCode\<close> that the client
  put on it is carried when there is one.
\<close>

theorem upstream_failure_answered:
  assumes "truthy (own ps ''url'')" and "truthy (own ps ''method'')"
    and "build_options E (JObj ps) = Inr options"
    and "got E (own ps ''url'') (JObj options) = Inl err"
  shows "proxy_handler E (fresh (JObj ps)) =
           (Inr (), \<lparr>req_body = JObj ps, status_code = 400,
                      sent = Some (JObj [(''err'', JObj (own_props err))]),
                      got_calls = [(own ps ''url'', JObj options)]\<rparr>)"
  using assms by (simp add: proxy_handler_obj)

text \<open>
  The descriptor \<^verbatim>\<open>{url: "http://x/bad", method: "GET"}\<close>, where the client rejects with
  an error of status code 500.
\<close>

theorem upstream_failure_answered_witness:
  \<open>proxy_handler example_upstream
      (fresh (JObj [(''url'', JStr ''http://x/bad''), (''method'', JStr ''GET'')])) =
     (Inr (), \<lparr>req_body = JObj [(''url'', JStr ''http://x/bad''), (''method'', JStr ''GET'')],
                status_code = 400,
                sent = Some (JObj [(''err'', JObj [(''statusCode'', JNum 500)])]),
                got_calls = [(JStr ''http://x/bad'', JObj [(''method'', JStr ''GET'')])]\<rparr>)\<close>
proof -
  let ?ps = "[(''url'', JStr ''http://x/bad''), (''method'', JStr ''GET'')]"
  have u: "truthy (own ?ps ''url'')" and m: "truthy (own ?ps ''method'')"
    by (simp_all add: own_def)
  have b: "build_options example_upstream (JObj ?ps) = Inr [(''method'', JStr ''GET'')]"
    by (simp add: build_options_obj own_def)
  have g: "got example_upstream (own ?ps ''url'') (JObj [(''method'', JStr ''GET'')]) =
             Inl (Error ''HTTPError'' [(''statusCode'', JNum 500)])"
    by (simp add: example_upstream_def own_def)
  show ?thesis
    using upstream_failure_answered [OF u m b g] by (simp add: own_def)
qed

text \<open>
  Claim C4. For a descriptor with non-empty \<^verbatim>\<open>url\<close> and \<^verbatim>\<open>method\<close>, when the promise
  of \<^verbatim>\<open>got\<close> is fulfilled and \<^verbatim>\<open>JSON.parse\<close> throws on the body of the response, the
  error thrown in the first callback rejects the promise of the first \<^verbatim>\<open>then\<close>, the
  rejection handler of the second \<^verbatim>\<open>then\<close> receives it, and the handler returns
  normally with status 400 and the body \<^verbatim>\<open>{err: <error>}\<close>: the failure is neither
  uncaught nor left without an answer.
\<close>

theorem malformed_response_answered:
  assumes "truthy (own ps ''url'')" and "truthy (own ps ''method'')"
    and "build_options E (JObj ps) = Inr options"
    and "got E (own ps ''url'') (JObj options) = Inr response"
    and "JSON_parse E (body response) = Inl err"
  shows "proxy_handler E (fresh (JObj ps)) =
           (Inr (), \<lparr>req_body = JObj ps, status_code = 400,
                      sent = Some (JObj [(''err'', JObj (own_props err))]),
                      got_calls = [(own ps ''url'', JObj options)]\<rparr>)"
  using assms by (simp add: proxy_handler_obj)

text \<open>
  The descriptor \<^verbatim>\<open>{url: "http://x/text", method: "GET"}\<close>, whose target answers 200
  with the body \<^verbatim>\<open>not-json\<close>.
\<close>

theorem malformed_response_answered_witness:
  \<open>proxy_handler example_upstream
      (fresh (JObj [(''url'', JStr ''http://x/text''), (''method'', JStr ''GET'')])) =
     (Inr (), \<lparr>req_body = JObj [(''url'', JStr ''http://x/text''), (''method'', JStr ''GET'')],
                status_code = 400, sent = Some (JObj [(''err'', JObj [])]),
                got_calls = [(JStr ''http://x/text'', JObj [(''method'', JStr ''GET'')])]\<rparr>)\<close>
proof -
  let ?ps = "[(''url'', JStr ''http://x/text''), (''method'', JStr ''GET'')]"
  have u: "truthy (own ?ps ''url'')" and m: "truthy (own ?ps ''method'')"
    by (simp_all add: own_def)
  have b: "build_options example_upstream (JObj ?ps) = Inr [(''method'', JStr ''GET'')]"
    by (simp add: build_options_obj own_def)
  have g: "got example_upstream (own ?ps ''url'') (JObj [(''method'', JStr ''GET'')]) =
             Inr \<lparr>statusCode = 200, body = ''not-json''\<rparr>"
    by (simp add: example_upstream_def own_def)
  have p: "JSON_parse example_upstream (body \<lparr>statusCode = 200, body = ''not-json''\<rparr>) =
             Inl (Error ''SyntaxError'' [])"
    by (simp add: example_upstream_def)
  show ?thesis
    using malformed_response_answered [OF u m b g p] by (simp add: own_def)
qed

section \<open>The options of the outbound call\<close>

text \<open>
  Claim C5. For a descriptor with non-empty \<^verbatim>\<open>url\<close> and \<^verbatim>\<open>method\<close> in which
  \<^verbatim>\<open>body\<close>, \<^verbatim>\<open>timeout\<close>, \<^verbatim>\<open>retries\<close> and \<^verbatim>\<open>headers\<close> are all absent, the options
  object built, and passed to the one call of \<^verbatim>\<open>got\<close>, has the \<^verbatim>\<open>method\<close> key and no
  other: no optional option is set, so the client's defaults apply.
\<close>

theorem absent_options_unset:
  assumes "truthy (own ps ''url'')" and "truthy (own ps ''method'')"
    and "map_of ps ''body'' = None" and "map_of ps ''timeout'' = None"
    and "map_of ps ''retries'' = None" and "map_of ps ''headers'' = None"
  shows "build_options E (JObj ps) = Inr [(''method'', own ps ''method'')]
       \<and> got_calls (snd (proxy_handler E (fresh (JObj ps)))) =
           [(own ps ''url'', JObj [(''method'', own ps ''method'')])]"
proof -
  have b: "build_options E (JObj ps) = Inr [(''method'', own ps ''method'')]"
    using assms(3-6) by (simp add: build_options_obj own_absent)
  from got_calls_obj [OF assms(1,2) b] b show ?thesis by simp
qed

theorem absent_options_unset_witness:
  "build_options example_upstream
     (JObj [(''url'', JStr ''http://x/ok''), (''method'', JStr ''GET'')]) =
     Inr [(''method'', JStr ''GET'')]
   \<and> got_calls (snd (proxy_handler example_upstream
        (fresh (JObj [(''url'', JStr ''http://x/ok''), (''method'', JStr ''GET'')])))) =
     [(JStr ''http://x/ok'', JObj [(''method'', JStr ''GET'')])]"
proof -
  let ?ps = "[(''url'', JStr ''http://x/ok''), (''method'', JStr ''GET'')]"
  have u: "truthy (own ?ps ''url'')" and m: "truthy (own ?ps ''method'')"
    by (simp_all add: own_def)
  have a: "map_of ?ps ''body'' = None" "map_of ?ps ''timeout'' = None"
    "map_of ?ps ''retries'' = None" "map_of ?ps ''headers'' = None"
    by simp_all
  show ?thesis
    using absent_options_unset [OF u m a, of example_upstream] by (simp add: own_def)
qed

text \<open>
  Claim C6 says that every optional field that is present is translated into its option.
  The descriptor \<^verbatim>\<open>{url: "http://x/ok", method: "POST", body: false}\<close> has a
  \<^verbatim>\<open>body\<close>, and the options of its outbound call have no \<^verbatim>\<open>body\<close> key: the handler
  sets an option under \<^verbatim>\<open>if (req.body.<name>)\<close>, which a falsy value does not pass.
\<close>

theorem falsy_body_dropped:
  "map_of [(''url'', JStr ''http://x/ok''), (''method'', JStr ''POST''), (''body'', JBool False)]
     ''body'' = Some (JBool False)
   \<and> got_calls (snd (proxy_handler example_upstream
        (fresh (JObj [(''url'', JStr ''http://x/ok''), (''method'', JStr ''POST''),
                      (''body'', JBool False)])))) =
     [(JStr ''http://x/ok'', JObj [(''method'', JStr ''POST'')])]"
  by (simp add: proxy_handler_obj build_options_obj own_def example_upstream_def)

text \<open>
  Claim C6, amended. For a descriptor with non-empty \<^verbatim>\<open>url\<close> and \<^verbatim>\<open>method\<close>, each
  optional field that is present with a truthy value is translated into the option of the
  same name of the one outbound call: \<^verbatim>\<open>body\<close> becomes the string
  \<^verbatim>\<open>JSON.stringify\<close> gives for it, and \<^verbatim>\<open>headers\<close>, \<^verbatim>\<open>timeout\<close> and \<^verbatim>\<open>retries\<close> are
  the descriptor's values unchanged.
\<close>

theorem truthy_fields_translated:
  assumes "truthy (own ps ''url'')" and "truthy (own ps ''method'')"
    and "build_options E (JObj ps) = Inr options"
  shows "got_calls (snd (proxy_handler E (fresh (JObj ps)))) = [(own ps ''url'', JObj options)]
       \<and> (truthy (own ps ''body'') \<longrightarrow>
            map_of options ''body'' = Some (JStr (JSON_stringify E (own ps ''body''))))
       \<and> (truthy (own ps ''headers'') \<longrightarrow> map_of options ''headers'' = Some (own ps ''headers''))
       \<and> (truthy (own ps ''timeout'') \<longrightarrow> map_of options ''timeout'' = Some (own ps ''timeout''))
       \<and> (truthy (own ps ''retries'') \<longrightarrow> map_of options ''retries'' = Some (own ps ''retries''))"
proof -
  have "map_of options ''body'' = Some (JStr (JSON_stringify E (own ps ''body'')))"
    if "truthy (own ps ''body'')"
    using that assms(3) by (auto simp add: build_options_obj)
  moreover have "map_of options ''headers'' = Some (own ps ''headers'')"
    if "truthy (own ps ''headers'')"
    using that assms(3) by (auto simp add: build_options_obj)
  moreover have "map_of options ''timeout'' = Some (own ps ''timeout'')"
    if "truthy (own ps ''timeout'')"
    using that assms(3) by (auto simp add: build_options_obj)
  moreover have "map_of options ''retries'' = Some (own ps ''retries'')"
    if "truthy (own ps ''retries'')"
    using that assms(3) by (auto simp add: build_options_obj)
  ultimately show ?thesis
    using got_calls_obj [OF assms] by simp
qed

text \<open>
  A descriptor with the headers \<^verbatim>\<open>{"X-Test": "1"}\<close>, the body \<^verbatim>\<open>{"a": 1}\<close>, 3 retries
  and a timeout of 1000.
\<close>

theorem truthy_fields_translated_witness:
  \<open>got_calls (snd (proxy_handler example_upstream
      (fresh (JObj [(''url'', JStr ''http://x/ok''), (''method'', JStr ''POST''),
                    (''headers'', JObj [(''X-Test'', JStr ''1'')]),
                    (''body'', JObj [(''a'', JNum 1)]),
                    (''retries'', JNum 3), (''timeout'', JNum 1000)])))) =
     [(JStr ''http://x/ok'',
       JObj [(''method'', JStr ''POST''), (''body'', JStr ''{"a":1}''),
             (''timeout'', JNum 1000), (''retries'', JNum 3),
             (''headers'', JObj [(''X-Test'', JStr ''1'')])])]
   \<and> map_of [(''method'', JStr ''POST''), (''body'', JStr ''{"a":1}''),
              (''timeout'', JNum 1000), (''retries'', JNum 3),
              (''headers'', JObj [(''X-Test'', JStr ''1'')])] ''headers'' =
       Some (JObj [(''X-Test'', JStr ''1'')])\<close>
proof -
  let ?ps = "[(''url'', JStr ''http://x/ok''), (''method'', JStr ''POST''),
              (''headers'', JObj [(''X-Test'', JStr ''1'')]),
              (''body'', JObj [(''a'', JNum 1)]),
              (''retries'', JNum 3), (''timeout'', JNum 1000)]"
  have u: "truthy (own ?ps ''url'')" and m: "truthy (own ?ps ''method'')"
    by (simp_all add: own_def)
  have b: \<open>build_options example_upstream (JObj ?ps) =
             Inr [(''method'', JStr ''POST''), (''body'', JStr ''{"a":1}''),
                  (''timeout'', JNum 1000), (''retries'', JNum 3),
                  (''headers'', JObj [(''X-Test'', JStr ''1'')])]\<close>
    by (simp add: build_options_obj own_def example_upstream_def)
  show ?thesis
    using truthy_fields_translated [OF u m b] by (simp add: own_def)
qed

text \<open>
  Claim C7 says that a \<^verbatim>\<open>retries\<close> of any non-negative integer, 0 included, reaches
  the options. The descriptor \<^verbatim>\<open>{url: "http://x/ok", method: "GET", retries: 0}\<close> has
  \<^verbatim>\<open>retries\<close> present, and the options of its outbound call have no \<^verbatim>\<open>retries\<close> key:
  \<^verbatim>\<open>if (req.body.retries)\<close> does not pass 0.
\<close>

theorem retries_zero_dropped:
  "map_of [(''url'', JStr ''http://x/ok''), (''method'', JStr ''GET''), (''retries'', JNum 0)]
     ''retries'' = Some (JNum 0)
   \<and> got_calls (snd (proxy_handler example_upstream
        (fresh (JObj [(''url'', JStr ''http://x/ok''), (''method'', JStr ''GET''),
                      (''retries'', JNum 0)])))) =
     [(JStr ''http://x/ok'', JObj [(''method'', JStr ''GET'')])]"
  by (simp add: proxy_handler_obj build_options_obj own_def example_upstream_def)

text \<open>
  Claim C7, amended. For a descriptor with non-empty \<^verbatim>\<open>url\<close> and \<^verbatim>\<open>method\<close> in which
  \<^verbatim>\<open>retries\<close> is present with a positive integer value, the options of the one outbound
  call contain a \<^verbatim>\<open>retries\<close> option equal to that value.
\<close>

theorem positive_retries_passed:
  assumes "truthy (own ps ''url'')" and "truthy (own ps ''method'')"
    and "map_of ps ''retries'' = Some (JNum (of_nat n))" and "0 < n"
    and "build_options E (JObj ps) = Inr options"
  shows "got_calls (snd (proxy_handler E (fresh (JObj ps)))) = [(own ps ''url'', JObj options)]
       \<and> map_of options ''retries'' = Some (JNum (of_nat n))"
proof -
  have "own ps ''retries'' = JNum (of_nat n)"
    using assms(3) by (rule own_present)
  then have "map_of options ''retries'' = Some (JNum (of_nat n))"
    using assms(4,5) by (auto simp add: build_options_obj)
  then show ?thesis
    using got_calls_obj [OF assms(1,2,5)] by simp
qed

theorem positive_retries_passed_witness:
  "got_calls (snd (proxy_handler example_upstream
      (fresh (JObj [(''url'', JStr ''http://x/ok''), (''method'', JStr ''GET''),
                    (''retries'', JNum 1)])))) =
     [(JStr ''http://x/ok'', JObj [(''method'', JStr ''GET''), (''retries'', JNum 1)])]
   \<and> map_of [(''method'', JStr ''GET''), (''retries'', JNum 1)] ''retries'' = Some (JNum 1)"
proof -
  let ?ps = "[(''url'', JStr ''http://x/ok''), (''method'', JStr ''GET''), (''retries'', JNum 1)]"
  have u: "truthy (own ?ps ''url'')" and m: "truthy (own ?ps ''method'')"
    by (simp_all add: own_def)
  have r: "map_of ?ps ''retries'' = Some (JNum (of_nat 1))"
    by simp
  have b: "build_options example_upstream (JObj ?ps) =
             Inr [(''method'', JStr ''GET''), (''retries'', JNum 1)]"
    by (simp add: build_options_obj own_def)
  show ?thesis
    using positive_retries_passed [OF u m r _ b] by (simp add: own_def)
qed

section \<open>A falsy optional field\<close>

lemma build_options_delete_falsy:
  assumes "k \<in> {''body'', ''timeout'', ''retries'', ''headers''}" and "\<not> truthy (own ps k)"
  shows "build_options E (JObj (AList.delete k ps)) = build_options E (JObj ps)"
  using assms by (auto simp add: build_options_obj own_delete own_delete_same)

lemma build_options_omits_falsy:
  assumes "k \<in> {''body'', ''timeout'', ''retries'', ''headers''}" and "\<not> truthy (own ps k)"
    and "build_options E (JObj ps) = Inr options"
  shows "map_of options k = None"
  using assms by (auto simp add: build_options_obj)

lemma proxy_handler_delete_falsy:
  assumes "k \<in> {''body'', ''timeout'', ''retries'', ''headers''}" and "\<not> truthy (own ps k)"
  shows "proxy_handler E (fresh (JObj (AList.delete k ps))) =
           apsnd (req_body_update (\<lambda>_. JObj (AList.delete k ps)))
             (proxy_handler E (fresh (JObj ps)))"
proof -
  have u: "own (AList.delete k ps) ''url'' = own ps ''url''"
    and m: "own (AList.delete k ps) ''method'' = own ps ''method''"
    using assms(1) by (auto simp add: own_delete)
  show ?thesis
    unfolding proxy_handler_obj [of E "AList.delete k ps"] proxy_handler_obj [of E ps]
      build_options_delete_falsy [OF assms] u m
    by (simp add: fresh_def split: sum.splits)
qed

text \<open>
  Claim C9. When one of \<^verbatim>\<open>body\<close>, \<^verbatim>\<open>timeout\<close>, \<^verbatim>\<open>retries\<close>, \<^verbatim>\<open>headers\<close> is present
  in the descriptor with a falsy value, the handler does what it does for the descriptor
  without that field: the options built are the same and have no key of that name, and the
  result of the handler, the status, the value sent and the calls of \<^verbatim>\<open>got\<close> are the
  same.
\<close>

theorem falsy_field_as_absent:
  assumes "k \<in> {''body'', ''timeout'', ''retries'', ''headers''}"
    and "map_of ps k = Some v" and "\<not> truthy v"
  shows "build_options E (JObj (AList.delete k ps)) = build_options E (JObj ps)
       \<and> (\<exists>options. build_options E (JObj ps) = Inr options \<and> map_of options k = None)
       \<and> fst (proxy_handler E (fresh (JObj (AList.delete k ps)))) =
           fst (proxy_handler E (fresh (JObj ps)))
       \<and> status_code (snd (proxy_handler E (fresh (JObj (AList.delete k ps))))) =
           status_code (snd (proxy_handler E (fresh (JObj ps))))
       \<and> sent (snd (proxy_handler E (fresh (JObj (AList.delete k ps))))) =
           sent (snd (proxy_handler E (fresh (JObj ps))))
       \<and> got_calls (snd (proxy_handler E (fresh (JObj (AList.delete k ps))))) =
           got_calls (snd (proxy_handler E (fresh (JObj ps))))"
proof -
  have f: "\<not> truthy (own ps k)"
    using assms(2,3) by (simp add: own_present)
  obtain options where o: "build_options E (JObj ps) = Inr options"
    using build_options_total by blast
  have "map_of options k = None"
    using assms(1) f o by (rule build_options_omits_falsy)
  with o have "\<exists>options. build_options E (JObj ps) = Inr options \<and> map_of options k = None"
    by blast
  then show ?thesis
    by (simp add: build_options_delete_falsy [OF assms(1) f]
        proxy_handler_delete_falsy [OF assms(1) f])
qed

text \<open>
  The descriptor \<^verbatim>\<open>{url: "http://x/ok", method: "GET", timeout: 0}\<close> and the same
  without its \<^verbatim>\<open>timeout\<close>.
\<close>

theorem falsy_field_as_absent_witness:
  "build_options example_upstream
     (JObj [(''url'', JStr ''http://x/ok''), (''method'', JStr ''GET'')]) =
   build_options example_upstream
     (JObj [(''url'', JStr ''http://x/ok''), (''method'', JStr ''GET''), (''timeout'', JNum 0)])
   \<and> got_calls (snd (proxy_handler example_upstream
        (fresh (JObj [(''url'', JStr ''http://x/ok''), (''method'', JStr ''GET'')])))) =
       got_calls (snd (proxy_handler example_upstream
        (fresh (JObj [(''url'', JStr ''http://x/ok''), (''method'', JStr ''GET''),
                      (''timeout'', JNum 0)]))))
   \<and> sent (snd (proxy_handler example_upstream
        (fresh (JObj [(''url'', JStr ''http://x/ok''), (''method'', JStr ''GET'')])))) =
       sent (snd (proxy_handler example_upstream
        (fresh (JObj [(''url'', JStr ''http://x/ok''), (''method'', JStr ''GET''),
                      (''timeout'', JNum 0)]))))"
proof -
  let ?ps = "[(''url'', JStr ''http://x/ok''), (''method'', JStr ''GET''), (''timeout'', JNum 0)]"
  have k: "''timeout'' \<in> {''body'', ''timeout'', ''retries'', ''headers''}"
    by simp
  have p: "map_of ?ps ''timeout'' = Some (JNum 0)"
    by simp
  have t: "\<not> truthy (JNum 0)"
    by simp
  have d: "AList.delete ''timeout'' ?ps =
             [(''url'', JStr ''http://x/ok''), (''method'', JStr ''GET'')]"
    by (simp add: AList.delete_eq)
  show ?thesis
    using falsy_field_as_absent [OF k p t, of example_upstream] unfolding d by simp
qed

section \<open>The descriptor is left as it was\<close>

text \<open>
  Claim C8. The handler does not change the descriptor: when \<^verbatim>\<open>req.body\<close> holds a
  descriptor (a truthy value), \<^verbatim>\<open>req.body\<close> holds the same value, with every field as on
  entry, at the end of every way through the handler. The statements of the handler write
  \<^verbatim>\<open>req.body\<close> once, with \<^verbatim>\<open>req.body || {}\<close>, and otherwise write the options object
  and the response; what the HTTP client does with the options it receives is its own.
\<close>

theorem descriptor_not_mutated:
  assumes "truthy (req_body s)"
  shows "req_body (snd (proxy_handler E s)) = req_body s"
proof -
  have n: "s\<lparr>req_body := (if truthy (req_body s) then req_body s else JObj [])\<rparr> = s"
    using assms by simp
  show ?thesis
    unfolding proxy_handler_def Let_def n
    by (simp add: res_json_def res_status_def call_got_def then_fulfilled_def
        then_rejected_def split: sum.splits)
qed

text \<open>
  One descriptor for each way: the call succeeds, the call fails, the validation fails.
\<close>

theorem descriptor_not_mutated_witness:
  "req_body (snd (proxy_handler example_upstream
      (fresh (JObj [(''url'', JStr ''http://x/ok''), (''method'', JStr ''GET'')])))) =
     JObj [(''url'', JStr ''http://x/ok''), (''method'', JStr ''GET'')]
   \<and> req_body (snd (proxy_handler example_upstream
      (fresh (JObj [(''url'', JStr ''http://x/bad''), (''method'', JStr ''GET'')])))) =
     JObj [(''url'', JStr ''http://x/bad''), (''method'', JStr ''GET'')]
   \<and> req_body (snd (proxy_handler example_upstream (fresh (JObj [(''method'', JStr ''GET'')])))) =
     JObj [(''method'', JStr ''GET'')]"
proof -
  have t: "truthy (req_body (fresh (JObj ps)))" for ps
    by (simp add: fresh_def)
  have r: "req_body (fresh (JObj ps)) = JObj ps" for ps
    by (simp add: fresh_def)
  show ?thesis
    using descriptor_not_mutated [OF t, of example_upstream] by (simp only: r simp_thms)
qed

end
